theory Spec2Isabelle
  imports Main "HOL-Library.Sublist"
begin

section \<open>JavaScript strings\<close>

text \<open>
  A JavaScript string is a finite sequence of code units. The model uses \<open>string\<close>
  (a list of \<open>char\<close>); \<open>indexOf\<close>, \<open>slice\<close>, \<open>length\<close> and indexing all count
  elements of that list, as the JavaScript operations count code units.
\<close>

definition newline :: char where
  "newline = CHR 0x0A"

text \<open>
  \<open>s.indexOf(pat)\<close>: the least position at which \<open>pat\<close> occurs in \<open>s\<close>, and \<open>-1\<close>
  when there is none. \<open>index_of\<close> computes the position, \<open>indexOf\<close> is the JavaScript
  result.
\<close>

fun index_of :: "string \<Rightarrow> string \<Rightarrow> nat option" where
  "index_of [] pat = (if pat = [] then Some 0 else None)"
| "index_of (c # cs) pat =
     (if take (length pat) (c # cs) = pat then Some 0
      else map_option Suc (index_of cs pat))"

definition indexOf :: "string \<Rightarrow> string \<Rightarrow> int" where
  "indexOf s pat = (case index_of s pat of None \<Rightarrow> - 1 | Some k \<Rightarrow> int k)"

text \<open>
  \<open>s[i]\<close>: the one-element string at position \<open>i\<close>, and \<open>undefined\<close> (here \<open>None\<close>)
  when \<open>i\<close> is not a position of \<open>s\<close>.
\<close>

definition char_at :: "string \<Rightarrow> int \<Rightarrow> string option" where
  "char_at s i = (if 0 \<le> i \<and> i < int (length s) then Some [s ! nat i] else None)"

text \<open>
  \<open>s.slice(a, b)\<close>: a negative argument counts from the end, both are clamped to the
  string, and an empty range gives the empty string. \<open>s.slice(a)\<close> runs to the end.
\<close>

definition slice :: "string \<Rightarrow> int \<Rightarrow> int \<Rightarrow> string" where
  "slice s a b =
     (let n = int (length s);
          from = (if a < 0 then max (n + a) 0 else min a n);
          to = (if b < 0 then max (n + b) 0 else min b n)
      in take (nat (to - from)) (drop (nat from) s))"

definition slice_from :: "string \<Rightarrow> int \<Rightarrow> string" where
  "slice_from s a = slice s a (int (length s))"

text \<open>\<open>xs.join(sep)\<close> on an array of strings.\<close>

fun join :: "string \<Rightarrow> string list \<Rightarrow> string" where
  "join sep [] = []"
| "join sep [x] = x"
| "join sep (x # y # ys) = x @ sep @ join sep (y # ys)"

section \<open>The README templater\<close>

text \<open>The published badge record of \<open>badges.ts\<close>, as \<open>generateReadme\<close> reads it.\<close>

record Badge =
  badge_id :: string
  tier :: int
  image :: string
  desc :: string
  body :: string

definition startString :: string where
  "startString = ''<!-- my-badges start -->''"

definition endString :: string where
  "endString = ''<!-- my-badges end -->''"

definition header :: string where
  \<open>header =
     ''<h4><a href="https://github.com/my-badges/my-badges">My Badges</a></h4>''
     @ [newline, newline]\<close>

text \<open>
  One thumbnail of the badge list. \<open>quoteAttr\<close> is the escaping helper of \<open>utils.ts\<close>
  and \<open>sizeAttr\<close> stands for the text of \<open>parseInt(size + '')\<close>; both are parameters.
\<close>

definition badgeHtml :: "(string \<Rightarrow> string) \<Rightarrow> string \<Rightarrow> Badge \<Rightarrow> string" where
  \<open>badgeHtml quoteAttr sizeAttr badge =
     (let d = quoteAttr (desc badge)
      in ''<a href="my-badges/'' @ badge_id badge @ ''.md"><img src="'' @ image badge
         @ ''" alt="'' @ d @ ''" title="'' @ d @ ''" width="'' @ sizeAttr
         @ ''"></a>'')\<close>

definition generateReadme ::
  "(string \<Rightarrow> string) \<Rightarrow> string \<Rightarrow> string \<Rightarrow> Badge list \<Rightarrow> string" where
  "generateReadme quoteAttr sizeAttr readme badges =
     (let content = readme;
          start = indexOf content startString;
          end = indexOf content endString;
          needToAddNewLine =
            (char_at content (end + int (length endString) + 1) \<noteq> Some [newline])
      in if start \<noteq> - 1 \<and> end \<noteq> - 1 then
           let content = slice content 0 start
                 @ slice_from content (end + int (length endString));
               badgesHtml = join [newline] (map (badgeHtml quoteAttr sizeAttr) badges)
           in slice content 0 start
              @ startString @ [newline]
              @ header
              @ badgesHtml
              @ [newline] @ endString
              @ (if needToAddNewLine then [newline] else [])
              @ slice_from content start
         else content)"

section \<open>Values, errors and the environment\<close>

text \<open>
  The exceptions the two source files can see: octokit's \<open>RequestError\<close> with
  \<open>err.response?.status\<close> (\<open>None\<close> when there is no response), the \<open>SyntaxError\<close> of
  \<open>JSON.parse\<close>, the \<open>TypeError\<close> of a property access that JavaScript refuses, and
  \<open>new Error(msg)\<close>, which also stands for the errors of the file system.
\<close>

datatype error =
    RequestError "int option"
  | SyntaxError
  | TypeError
  | Error string

text \<open>
  The values \<open>JSON.parse\<close> returns and the code then mutates. An object is its list of
  own properties in insertion order; an array carries its elements and the named
  properties assigned to it (\<open>userBadges.sha = ...\<close>). Numbers are left abstract: the
  code creates only \<open>0\<close> and \<open>64\<close>.
\<close>

datatype 'n jsval =
    JUndefined
  | JNull
  | JBool bool
  | JNum 'n
  | JStr string
  | JArr "'n jsval list" "(string \<times> 'n jsval) list"
  | JObj "(string \<times> 'n jsval) list"

text \<open>
  \<open>v.k\<close> and \<open>v.k = x\<close> in a strict-mode module, for the two names the code uses
  (\<open>tier\<close> and \<open>sha\<close>, which no prototype defines): reading a property of \<open>null\<close> or
  \<open>undefined\<close> throws, reading one of a primitive gives \<open>undefined\<close>, writing one on
  anything but an object or an array throws.
\<close>

fun lookup :: "(string \<times> 'n jsval) list \<Rightarrow> string \<Rightarrow> 'n jsval" where
  "lookup [] k = JUndefined"
| "lookup ((k', v) # ps) k = (if k' = k then v else lookup ps k)"

fun assign :: "(string \<times> 'n jsval) list \<Rightarrow> string \<Rightarrow> 'n jsval \<Rightarrow> (string \<times> 'n jsval) list" where
  "assign [] k v = [(k, v)]"
| "assign ((k', v') # ps) k v = (if k' = k then (k, v) # ps else (k', v') # assign ps k v)"

fun get_prop :: "'n jsval \<Rightarrow> string \<Rightarrow> error + 'n jsval" where
  "get_prop JUndefined k = Inl TypeError"
| "get_prop JNull k = Inl TypeError"
| "get_prop (JArr xs ps) k = Inr (lookup ps k)"
| "get_prop (JObj ps) k = Inr (lookup ps k)"
| "get_prop v k = Inr JUndefined"

fun set_prop :: "'n jsval \<Rightarrow> string \<Rightarrow> 'n jsval \<Rightarrow> error + 'n jsval" where
  "set_prop (JArr xs ps) k v = Inr (JArr xs (assign ps k v))"
| "set_prop (JObj ps) k v = Inr (JObj (assign ps k v))"
| "set_prop u k v = Inl TypeError"

text \<open>
  A string that may carry the properties \<open>sha\<close> and \<open>path\<close>
  (\<open>string & { sha?: string; path?: string }\<close>).
\<close>

record content_t =
  chars :: string
  sha :: "string option"
  path :: "string option"

text \<open>The \<open>data\<close> of a \<open>GET .../readme\<close> or \<open>GET .../contents/{path}\<close> response.\<close>

record file_data =
  data_content :: string
  data_sha :: string
  data_path :: string

text \<open>The parameters of \<open>PUT /repos/{owner}/{repo}/contents/{path}\<close>.\<close>

record put_request =
  put_owner :: string
  put_repo :: string
  put_path :: string
  put_message :: string
  put_committer_name :: string
  put_committer_email :: string
  put_content :: string
  put_sha :: "string option"

text \<open>
  A write the code issues: \<open>writeFile(path.join(cwd, contentPath), content)\<close>, or the
  \<open>PUT\<close> request of the client made for a token.
\<close>

datatype write_req =
    WriteFile string string string
  | PutContents string put_request

text \<open>The pluggable provider, as \<open>getData\<close> and \<open>getSnapshot\<close> call it.\<close>

record ('n, 'w) provider =
  provider_getData :: "string \<Rightarrow> string option \<Rightarrow> 'w \<Rightarrow> error + 'n jsval"
  provider_getBadges ::
    "string option \<Rightarrow> string option \<Rightarrow> string \<Rightarrow> string \<Rightarrow> 'w \<Rightarrow> error + 'n jsval"

text \<open>
  Everything the two files import or call outside themselves, over a state \<open>'w\<close> of the
  file system and the remote repository: the constant of \<open>constants.ts\<close>, the helpers
  of \<open>utils.ts\<close>, \<open>JSON\<close>, \<open>process.cwd()\<close>, and the calls
  \<open>fs.readFile(path.resolve(cwd, p), 'utf8')\<close> (also its synchronous form),
  \<open>fs.existsSync(p)\<close>, \<open>writeFile(path.join(cwd, p), s)\<close> and
  \<open>getOctokit(token).request(...)\<close>. A call that throws returns \<open>Inl\<close>. Console output
  is not modelled.
\<close>

record ('n, 'w) env =
  MY_BADGES_JSON_PATH :: string
  decodeBase64 :: "string \<Rightarrow> error + string"
  encodeBase64 :: "string \<Rightarrow> string"
  JSON_parse :: "string \<Rightarrow> 'n jsval option"
  JSON_stringify :: "'n jsval \<Rightarrow> string"
  process_cwd :: string
  readFile :: "string \<Rightarrow> string \<Rightarrow> 'w \<Rightarrow> error + string"
  existsSync :: "string \<Rightarrow> 'w \<Rightarrow> bool"
  writeFile :: "string \<Rightarrow> string \<Rightarrow> string \<Rightarrow> 'w \<Rightarrow> error + 'w"
  get_readme :: "string \<Rightarrow> string \<Rightarrow> string \<Rightarrow> string \<Rightarrow> 'w \<Rightarrow> error + file_data"
  get_contents :: "string \<Rightarrow> string \<Rightarrow> string \<Rightarrow> string \<Rightarrow> 'w \<Rightarrow> error + file_data"
  put_contents :: "string \<Rightarrow> put_request \<Rightarrow> 'w \<Rightarrow> error + 'w"

section \<open>The synchronizer: \<open>read\<close>, \<open>upload\<close>, \<open>upsert\<close>\<close>

record ReadOpts =
  token :: string
  dryrun :: bool
  contentPath :: string
  cwd :: string
  repo :: string
  owner :: string

record UpsertOpts = ReadOpts +
  content :: content_t
  committerName :: string
  committerEmail :: string

definition empty_content :: content_t where
  "empty_content = \<lparr>chars = [], sha = None, path = None\<rparr>"

text \<open>The \<open>try\<close> block of \<open>read\<close>.\<close>

definition read_try :: "('n, 'w) env \<Rightarrow> 'a ReadOpts_scheme \<Rightarrow> 'w \<Rightarrow> error + content_t" where
  "read_try env opts w =
     (if dryrun opts then
        (case readFile env (cwd opts) (contentPath opts) w of
           Inl e \<Rightarrow> Inl e
         | Inr s \<Rightarrow> Inr \<lparr>chars = s, sha = None, path = None\<rparr>)
      else
        (case (if contentPath opts = ''readme.md''
               then get_readme env (token opts) (owner opts) (repo opts) (contentPath opts) w
               else get_contents env (token opts) (owner opts) (repo opts) (contentPath opts) w) of
           Inl e \<Rightarrow> Inl e
         | Inr d \<Rightarrow>
             (case decodeBase64 env (data_content d) of
                Inl e \<Rightarrow> Inl e
              | Inr s \<Rightarrow> Inr \<lparr>chars = s, sha = Some (data_sha d), path = Some (data_path d)\<rparr>)))"

text \<open>\<open>read\<close>: the \<open>try\<close> block, and \<open>return ''\<close> in the \<open>catch\<close>.\<close>

definition read :: "('n, 'w) env \<Rightarrow> 'a ReadOpts_scheme \<Rightarrow> 'w \<Rightarrow> error + content_t" where
  "read env opts w =
     (case read_try env opts w of
        Inl e \<Rightarrow> Inr empty_content
      | Inr c \<Rightarrow> Inr c)"

text \<open>\<open>x || y\<close> and \<open>x ? .. : ..\<close> on a string that may be \<open>undefined\<close>.\<close>

fun truthy :: "string option \<Rightarrow> bool" where
  "truthy None = False"
| "truthy (Some s) = (s \<noteq> [])"

definition upload :: "('n, 'w) env \<Rightarrow> UpsertOpts \<Rightarrow> 'w \<Rightarrow> write_req list \<times> (error + 'w)" where
  "upload env opts w =
     (if dryrun opts then
        ([WriteFile (cwd opts) (contentPath opts) (chars (content opts))],
         writeFile env (cwd opts) (contentPath opts) (chars (content opts)) w)
      else
        let sha' = sha (content opts);
            contentPath' = path (content opts);
            req = \<lparr>put_owner = owner opts,
                   put_repo = repo opts,
                   put_path = (case contentPath' of
                                 None \<Rightarrow> contentPath opts
                               | Some p \<Rightarrow> if p \<noteq> [] then p else contentPath opts),
                   put_message = ''chore: '' @ contentPath opts @ '' ''
                     @ (if truthy sha' then ''updated'' else ''added''),
                   put_committer_name = committerName opts,
                   put_committer_email = committerEmail opts,
                   put_content = encodeBase64 env (chars (content opts)),
                   put_sha = sha'\<rparr>
        in ([PutContents (token opts) req], put_contents env (token opts) req w))"

definition upsert :: "('n, 'w) env \<Rightarrow> UpsertOpts \<Rightarrow> 'w \<Rightarrow> write_req list \<times> (error + 'w)" where
  "upsert env opts w =
     (case read env opts w of
        Inl e \<Rightarrow> ([], Inl e)
      | Inr c \<Rightarrow>
          if chars (content opts) = chars c then ([], Inr w)
          else upload env (opts\<lparr>content := (content opts)\<lparr>sha := sha c, path := path c\<rparr>\<rparr>) w)"

section \<open>\<open>githubProvider.getBadges\<close>\<close>

record GetBadgesOpts =
  gb_user :: string
  gb_token :: string
  gb_owner :: "string option"
  gb_repo :: "string option"
  gb_dryrun :: "bool option"
  gb_cwd :: string

text \<open>The argument of the call of \<open>read\<close>, with the defaults of the parameter list.\<close>

definition getBadges_readOpts :: "('n, 'w) env \<Rightarrow> GetBadgesOpts \<Rightarrow> ReadOpts" where
  "getBadges_readOpts env opts =
     \<lparr>token = gb_token opts,
      dryrun = (case gb_dryrun opts of None \<Rightarrow> False | Some d \<Rightarrow> d),
      contentPath = MY_BADGES_JSON_PATH env,
      cwd = gb_cwd opts,
      repo = (case gb_repo opts of None \<Rightarrow> gb_user opts | Some r \<Rightarrow> r),
      owner = (case gb_owner opts of None \<Rightarrow> gb_user opts | Some ow \<Rightarrow> ow)\<rparr>"

text \<open>The body of the loop: \<open>if (b.tier === undefined) b.tier = 0\<close>.\<close>

definition addMissingTier :: "('n::zero) jsval \<Rightarrow> error + 'n jsval" where
  "addMissingTier b =
     (case get_prop b ''tier'' of
        Inl e \<Rightarrow> Inl e
      | Inr t \<Rightarrow> if t = JUndefined then set_prop b ''tier'' (JNum 0) else Inr b)"

text \<open>The loop \<open>for (const b of userBadges)\<close> over the elements of an array.\<close>

fun addMissingTiers :: "('n::zero) jsval list \<Rightarrow> error + 'n jsval list" where
  "addMissingTiers [] = Inr []"
| "addMissingTiers (b # bs) =
     (case addMissingTier b of
        Inl e \<Rightarrow> Inl e
      | Inr b' \<Rightarrow>
          (case addMissingTiers bs of
             Inl e \<Rightarrow> Inl e
           | Inr bs' \<Rightarrow> Inr (b' # bs')))"

text \<open>The \<open>try\<close> block of \<open>getBadges\<close>. Only an array is iterable among the parsed values
  that accept the assignment of \<open>sha\<close>.\<close>

definition getBadges_try ::
  "('n::zero, 'w) env \<Rightarrow> GetBadgesOpts \<Rightarrow> 'w \<Rightarrow> error + 'n jsval" where
  "getBadges_try env opts w =
     (case read env (getBadges_readOpts env opts) w of
        Inl e \<Rightarrow> Inl e
      | Inr c \<Rightarrow>
          (case JSON_parse env (chars c) of
             None \<Rightarrow> Inl SyntaxError
           | Some parsed \<Rightarrow>
               (case set_prop parsed ''sha''
                       (case sha c of None \<Rightarrow> JUndefined | Some s \<Rightarrow> JStr s) of
                  Inl e \<Rightarrow> Inl e
                | Inr userBadges \<Rightarrow>
                    (case userBadges of
                       JArr bs ps \<Rightarrow>
                         (case addMissingTiers bs of
                            Inl e \<Rightarrow> Inl e
                          | Inr bs' \<Rightarrow> Inr (JArr bs' ps))
                     | _ \<Rightarrow> Inl TypeError))))"

text \<open>The \<open>catch\<close> block of \<open>getBadges\<close>, followed by \<open>return []\<close>.\<close>

fun getBadges_catch :: "error \<Rightarrow> error + 'n jsval" where
  "getBadges_catch (RequestError status) =
     (if status \<noteq> Some 404 then Inl (RequestError status) else Inr (JArr [] []))"
| "getBadges_catch err = Inr (JArr [] [])"

definition getBadges :: "('n::zero, 'w) env \<Rightarrow> GetBadgesOpts \<Rightarrow> 'w \<Rightarrow> error + 'n jsval" where
  "getBadges env opts w =
     (case getBadges_try env opts w of
        Inl err \<Rightarrow> getBadges_catch err
      | Inr userBadges \<Rightarrow> Inr userBadges)"

section \<open>Options and the snapshot loader\<close>

text \<open>\<open>s.split(sep)\<close> for a one-character separator.\<close>

fun split :: "char \<Rightarrow> string \<Rightarrow> string list" where
  "split sep [] = [[]]"
| "split sep (c # cs) =
     (if c = sep then [] # split sep cs
      else (case split sep cs of
              [] \<Rightarrow> [[c]]
            | x # xs \<Rightarrow> (c # x) # xs))"

text \<open>\<open>xs[i]\<close> in a destructuring pattern: \<open>undefined\<close> past the end.\<close>

definition element :: "'a option list \<Rightarrow> nat \<Rightarrow> 'a option" where
  "element xs i = (if i < length xs then xs ! i else None)"

datatype 'n size_t = SizeNumber 'n | SizeString string

text \<open>
  \<open>argv\<close> (a \<open>Record<string, any>\<close>, read at the names of \<open>TUpdateMyBadgesOpts\<close>, at
  \<open>pick\<close>, \<open>omit\<close> and at \<open>_\<close>) and the three variables read from \<open>env\<close>. \<open>None\<close> is
  \<open>undefined\<close>.
\<close>

record ('n, 'w) Argv =
  argv_token :: "string option"
  argv_repo :: "string option"
  argv_user :: "string option"
  argv_positional :: "string list option"
  argv_data :: "string option"
  argv_size :: "'n size_t option"
  argv_dryrun :: "bool option"
  argv_compact :: "bool option"
  argv_shuffle :: "bool option"
  argv_pick :: "string option"
  argv_omit :: "string option"
  argv_provider :: "('n, 'w) provider option"
  argv_cwd :: "string option"

record ProcessEnv =
  GITHUB_TOKEN :: "string option"
  GITHUB_REPO :: "string option"
  GITHUB_USER :: "string option"

record ('n, 'w) NormalizedOpts =
  n_token :: "string option"
  n_owner :: "string option"
  n_repo :: "string option"
  n_user :: "string option"
  n_size :: "'n size_t"
  n_dryrun :: bool
  n_compact :: bool
  n_shuffle :: bool
  pickBadges :: "string list"
  omitBadges :: "string list"
  dataPath :: string
  n_provider :: "('n, 'w) provider"
  n_cwd :: string

text \<open>
  A destructuring default applies when the property is \<open>undefined\<close>.
\<close>

definition default_to :: "'a option \<Rightarrow> 'a \<Rightarrow> 'a" where
  "default_to x d = (case x of None \<Rightarrow> d | Some v \<Rightarrow> v)"

text \<open>
  \<open>normalizeOpts\<close>; \<open>githubProvider\<close> is the default provider. The default of \<open>user\<close>,
  \<open>argv._[0] || env.GITHUB_USER\<close>, throws when \<open>argv._\<close> is \<open>undefined\<close>.
\<close>

definition normalizeOpts ::
  "('n::numeral, 'w) env \<Rightarrow> ('n, 'w) provider \<Rightarrow> ('n, 'w) Argv \<Rightarrow> ProcessEnv
   \<Rightarrow> error + ('n, 'w) NormalizedOpts" where
  "normalizeOpts env githubProvider argv penv =
     (case (case argv_user argv of
              Some u \<Rightarrow> Inr (Some u)
            | None \<Rightarrow>
                (case argv_positional argv of
                   None \<Rightarrow> Inl TypeError
                 | Some args \<Rightarrow>
                     Inr (if truthy (element (map Some args) 0)
                          then element (map Some args) 0
                          else GITHUB_USER penv))) of
        Inl e \<Rightarrow> Inl e
      | Inr user \<Rightarrow>
          let token' = (case argv_token argv of None \<Rightarrow> GITHUB_TOKEN penv | Some t \<Rightarrow> Some t);
              repository = (case argv_repo argv of None \<Rightarrow> GITHUB_REPO penv | Some r \<Rightarrow> Some r);
              parts = (case repository of
                         None \<Rightarrow> [user, user]
                       | Some r \<Rightarrow> map Some (take 2 (split CHR ''/'' r)));
              owner' = element parts 0;
              repo' = element parts 1;
              pick = argv_pick argv;
              omit = argv_omit argv
          in Inr \<lparr>n_token = token',
                  n_owner = owner',
                  n_repo = repo',
                  n_user = user,
                  n_size = default_to (argv_size argv) (SizeNumber 64),
                  n_dryrun = default_to (argv_dryrun argv) False,
                  n_compact = default_to (argv_compact argv) False,
                  n_shuffle = default_to (argv_shuffle argv) False,
                  pickBadges = (case pick of
                                  None \<Rightarrow> []
                                | Some p \<Rightarrow> if p \<noteq> [] then split CHR '','' p else []),
                  omitBadges = (case omit of
                                  None \<Rightarrow> []
                                | Some p \<Rightarrow> if p \<noteq> [] then split CHR '','' p else []),
                  dataPath = default_to (argv_data argv) [],
                  n_provider = default_to (argv_provider argv) githubProvider,
                  n_cwd = default_to (argv_cwd argv) (process_cwd env)\<rparr>)"

text \<open>
  \<open>getData\<close>, returning the data and the state after \<open>writeFile\<close>. Its parameter \<open>cwd\<close>
  is a string in \<open>TUpdateMyBadgesNormalizedOpts\<close>, so its default is never taken.
\<close>

definition getData ::
  "('n, 'w) env \<Rightarrow> ('n, 'w) NormalizedOpts \<Rightarrow> 'w \<Rightarrow> error + ('n jsval \<times> 'w)" where
  "getData env opts w =
     (if dataPath opts \<noteq> [] then
        (if \<not> existsSync env (dataPath opts) w then Inl (Error ''Data file not found'')
         else
           (case readFile env (n_cwd opts) (dataPath opts) w of
              Inl e \<Rightarrow> Inl e
            | Inr s \<Rightarrow>
                (case JSON_parse env s of
                   None \<Rightarrow> Inl SyntaxError
                 | Some d \<Rightarrow> Inr (d, w))))
      else
        (case n_user opts of
           None \<Rightarrow> Inl (Error ''Specify username'')
         | Some user \<Rightarrow>
             if user = [] then Inl (Error ''Specify username'')
             else
               (case provider_getData (n_provider opts) user (n_token opts) w of
                  Inl e \<Rightarrow> Inl e
                | Inr d \<Rightarrow>
                    (case writeFile env (n_cwd opts) (''data/'' @ user @ ''.json'')
                            (JSON_stringify env d) w of
                       Inl e \<Rightarrow> Inl e
                     | Inr w' \<Rightarrow> Inr (d, w')))))"

record 'n Snapshot =
  snapshot_data :: "'n jsval"
  userBadges :: "'n jsval"

definition getSnapshot ::
  "('n, 'w) env \<Rightarrow> ('n, 'w) NormalizedOpts \<Rightarrow> 'w \<Rightarrow> error + ('n Snapshot \<times> 'w)" where
  "getSnapshot env opts w =
     (case getData env opts w of
        Inl e \<Rightarrow> Inl e
      | Inr (d, w') \<Rightarrow>
          (case (case (n_owner opts, n_repo opts) of
                   (Some ow, Some rp) \<Rightarrow>
                     if ow \<noteq> [] \<and> rp \<noteq> []
                     then provider_getBadges (n_provider opts) (n_token opts) (n_user opts) rp ow w'
                     else Inr (JArr [] [])
                 | _ \<Rightarrow> Inr (JArr [] [])) of
             Inl e \<Rightarrow> Inl e
           | Inr ub \<Rightarrow> Inr (\<lparr>snapshot_data = d, userBadges = ub\<rparr>, w')))"

section \<open>An in-memory environment for the examples\<close>

text \<open>
  The concrete environment of the examples below: local files keyed by working directory
  and relative path, remote files keyed by owner, repository and path, a store that
  keeps contents unencoded, refuses an overwrite whose \<open>sha\<close> is not the stored one,
  and a parser given by a table of the texts it accepts.
\<close>

record store =
  files :: "(string \<times> string) \<rightharpoonup> string"
  remote :: "(string \<times> string \<times> string) \<rightharpoonup> file_data"

definition mem_get :: "string \<Rightarrow> string \<Rightarrow> string \<Rightarrow> store \<Rightarrow> error + file_data" where
  "mem_get ow rp p w =
     (case remote w (ow, rp, p) of
        None \<Rightarrow> Inl (RequestError (Some 404))
      | Some d \<Rightarrow> Inr d)"

definition mem_put :: "put_request \<Rightarrow> store \<Rightarrow> error + store" where
  "mem_put req w =
     (let key = (put_owner req, put_repo req, put_path req);
          d = \<lparr>data_content = put_content req,
               data_sha = ''sha-of-'' @ put_content req,
               data_path = put_path req\<rparr>
      in case remote w key of
           None \<Rightarrow> Inr (w\<lparr>remote := (remote w)(key \<mapsto> d)\<rparr>)
         | Some old \<Rightarrow>
             if put_sha req = Some (data_sha old)
             then Inr (w\<lparr>remote := (remote w)(key \<mapsto> d)\<rparr>)
             else Inl (RequestError (Some 409)))"

definition mem_env :: "(string \<times> int jsval) list \<Rightarrow> (int, store) env" where
  "mem_env table =
     \<lparr>MY_BADGES_JSON_PATH = ''my-badges/my-badges.json'',
      decodeBase64 = Inr,
      encodeBase64 = (\<lambda>s. s),
      JSON_parse = map_of table,
      JSON_stringify = (\<lambda>v. ''{}''),
      process_cwd = ''/work'',
      readFile = (\<lambda>dir p w. case files w (dir, p) of
                                 None \<Rightarrow> Inl (Error ''ENOENT'')
                               | Some s \<Rightarrow> Inr s),
      existsSync = (\<lambda>p w. files w (''/work'', p) \<noteq> None),
      writeFile = (\<lambda>dir p s w. Inr (w\<lparr>files := (files w)((dir, p) \<mapsto> s)\<rparr>)),
      get_readme = (\<lambda>tok ow rp p. mem_get ow rp ''README.md''),
      get_contents = (\<lambda>tok ow rp p. mem_get ow rp p),
      put_contents = (\<lambda>tok. mem_put)\<rparr>"

definition empty_store :: store where
  "empty_store = \<lparr>files = Map.empty, remote = Map.empty\<rparr>"

text \<open>An \<open>upsert\<close> of the README in dry-run mode, and a repository holding a README.\<close>

definition example_opts :: UpsertOpts where
  "example_opts =
     \<lparr>token = ''t'', dryrun = True, contentPath = ''readme.md'', cwd = ''/work'',
      repo = ''r'', owner = ''o'',
      content = \<lparr>chars = ''new'', sha = None, path = None\<rparr>,
      committerName = ''n'', committerEmail = ''e''\<rparr>"

definition example_remote :: store where
  "example_remote =
     \<lparr>files = Map.empty,
      remote = [(''o'', ''r'', ''README.md'') \<mapsto>
        \<lparr>data_content = ''old'', data_sha = ''abc'', data_path = ''README.md''\<rparr>]\<rparr>"

text \<open>
  A call of \<open>getBadges\<close> with the defaults of owner and repository, an environment
  whose contents requests all fail with one status, one that rejects every \<open>PUT\<close>, a
  repository holding a manifest, and the parser's table for one manifest.
\<close>

definition example_gb_opts :: GetBadgesOpts where
  "example_gb_opts =
     \<lparr>gb_user = ''o'', gb_token = ''t'', gb_owner = None, gb_repo = None,
      gb_dryrun = None, gb_cwd = ''/work''\<rparr>"

definition failing_env :: "int option \<Rightarrow> (int, store) env" where
  "failing_env status =
     (mem_env [])\<lparr>get_contents := \<lambda>tok ow rp p w. Inl (RequestError status)\<rparr>"

definition rejecting_env :: "(int, store) env" where
  "rejecting_env =
     (mem_env [])\<lparr>put_contents := \<lambda>tok req w. Inl (RequestError (Some 409))\<rparr>"

definition manifest_store :: "string \<Rightarrow> store" where
  "manifest_store s =
     \<lparr>files = Map.empty,
      remote = [(''o'', ''o'', ''my-badges/my-badges.json'') \<mapsto>
        \<lparr>data_content = s, data_sha = ''abc'', data_path = ''my-badges/my-badges.json''\<rparr>]\<rparr>"

definition example_table :: "(string \<times> int jsval) list" where
  \<open>example_table =
     [(''[{"id":"a"},{"id":"b","tier":2}]'',
       JArr [JObj [(''id'', JStr ''a'')],
             JObj [(''id'', JStr ''b''), (''tier'', JNum 2)]] [])]\<close>

text \<open>A provider, command-line options naming a repository without a slash, and
  an environment without variables.\<close>

definition example_provider :: "(int, store) provider" where
  "example_provider =
     \<lparr>provider_getData = (\<lambda>user tok w. Inr (JObj [])),
      provider_getBadges = (\<lambda>tok user rp ow w. Inr (JArr [JObj [(''id'', JStr ''stars'')]] []))\<rparr>"

definition example_argv :: "(int, store) Argv" where
  "example_argv =
     \<lparr>argv_token = Some ''t'', argv_repo = Some ''octocat'', argv_user = Some ''u'',
      argv_positional = None, argv_data = None, argv_size = None, argv_dryrun = None,
      argv_compact = None, argv_shuffle = None, argv_pick = None, argv_omit = None,
      argv_provider = None, argv_cwd = None\<rparr>"

definition example_penv :: ProcessEnv where
  "example_penv = \<lparr>GITHUB_TOKEN = None, GITHUB_REPO = None, GITHUB_USER = None\<rparr>"

section \<open>Properties of the string operations\<close>

text \<open>\<open>index_of\<close> finds a pattern exactly when it occurs, at its first position.\<close>

lemma index_of_None_iff: "index_of s pat = None \<longleftrightarrow> \<not> sublist pat s"
proof (induction s)
  case Nil
  show ?case by simp
next
  case (Cons c cs)
  have pre: "take (length pat) (c # cs) = pat \<longleftrightarrow> prefix pat (c # cs)"
    by (metis append_take_drop_id prefix_def append_eq_conv_conj prefixE)
  show ?case using Cons
    by (simp add: pre sublist_Cons_right)
qed

lemma index_of_Some_bound:
  "index_of s pat = Some k \<Longrightarrow> k + length pat \<le> length s \<and> take (length pat) (drop k s) = pat"
proof (induction s arbitrary: k)
  case Nil
  then show ?case by (simp split: if_splits)
next
  case (Cons c cs)
  show ?case
  proof (cases "take (length pat) (c # cs) = pat")
    case True
    have "length (take (length pat) (c # cs)) \<le> length (c # cs)"
      by (simp del: take_Suc_Cons)
    then have "length pat \<le> length (c # cs)"
      by (simp only: True)
    with True Cons.prems show ?thesis by simp
  next
    case False
    with Cons.prems obtain k' where k': "index_of cs pat = Some k'" "k = Suc k'"
      by auto
    with Cons.IH show ?thesis by simp
  qed
qed

lemma index_of_least:
  "index_of s pat = Some k \<Longrightarrow> j < k \<Longrightarrow> take (length pat) (drop j s) \<noteq> pat"
proof (induction s arbitrary: k j)
  case Nil
  then show ?case by (simp split: if_splits)
next
  case (Cons c cs)
  show ?case
  proof (cases "take (length pat) (c # cs) = pat")
    case True
    with Cons.prems show ?thesis by simp
  next
    case False
    with Cons.prems obtain k' where k': "index_of cs pat = Some k'" "k = Suc k'"
      by auto
    show ?thesis
    proof (cases j)
      case 0
      with False show ?thesis by simp
    next
      case (Suc j')
      with Cons.IH [OF k'(1), of j'] Cons.prems(2) k'(2) show ?thesis by simp
    qed
  qed
qed

lemma slice_0: "k \<le> length s \<Longrightarrow> slice s 0 (int k) = take k s"
  by (simp add: slice_def Let_def min_def)

lemma slice_from_nat: "slice_from s (int k) = drop k s"
  by (simp add: slice_from_def slice_def Let_def min_def)

section \<open>Properties of the synchronizer\<close>

lemma fst_upload_length: "length (fst (upload env opts w)) = 1"
  by (simp add: upload_def Let_def)

lemma upsert_equal: 
  "read env opts w = Inr c \<Longrightarrow> chars (content opts) = chars c \<Longrightarrow> upsert env opts w = ([], Inr w)"
  by (simp add: upsert_def)

lemma upsert_differs:
  "read env opts w = Inr c \<Longrightarrow> chars (content opts) \<noteq> chars c \<Longrightarrow>
   upsert env opts w = upload env (opts\<lparr>content := (content opts)\<lparr>sha := sha c, path := path c\<rparr>\<rparr>) w"
  by (simp add: upsert_def)

lemmas mem_simps = upsert_def read_def read_try_def mem_env_def example_opts_def empty_store_def upload_def
  empty_content_def mem_get_def mem_put_def example_remote_def

lemma read_dryrun:
  "dryrun opts \<Longrightarrow> readFile env (cwd opts) (contentPath opts) w = Inr s \<Longrightarrow>
   read env opts w = Inr \<lparr>chars = s, sha = None, path = None\<rparr>"
  by (simp add: read_def read_try_def)

lemma read_remote:
  "\<not> dryrun opts \<Longrightarrow>
   (if contentPath opts = ''readme.md''
    then get_readme env (token opts) (owner opts) (repo opts) (contentPath opts) w
    else get_contents env (token opts) (owner opts) (repo opts) (contentPath opts) w) = Inr d \<Longrightarrow>
   decodeBase64 env (data_content d) = Inr s \<Longrightarrow>
   read env opts w = Inr \<lparr>chars = s, sha = Some (data_sha d), path = Some (data_path d)\<rparr>"
  by (simp add: read_def read_try_def)

text \<open>
  Claim C1, as amended. When the content read at the path equals the desired content,
  \<open>upsert\<close> issues no write and leaves the state as it is. Let the store be unchanged
  between the two calls: a file written under the working directory is what a later read
  of it returns, a successful \<open>PUT\<close> at the path the read reported (or at \<open>contentPath\<close>
  when it reported none) is what the later \<open>GET\<close> of the item returns, and decoding
  inverts encoding. Then a first \<open>upsert\<close> that succeeds has issued one write if the
  content it read differed and none if it was equal, and the second \<open>upsert\<close> issues no
  write and leaves the state as it is.
\<close>

theorem upsert_idempotent:
  assumes r: "read env opts w = Inr c"
    and files: "dryrun opts \<longrightarrow>
       (\<forall>s w'. writeFile env (cwd opts) (contentPath opts) s w = Inr w'
          \<longrightarrow> readFile env (cwd opts) (contentPath opts) w' = Inr s)"
    and repo: "\<not> dryrun opts \<longrightarrow>
       (\<forall>req w'. put_contents env (token opts) req w = Inr w'
            \<and> put_owner req = owner opts \<and> put_repo req = repo opts
            \<and> put_path req = (case path c of
                                None \<Rightarrow> contentPath opts
                              | Some p \<Rightarrow> if p \<noteq> [] then p else contentPath opts)
          \<longrightarrow> (\<exists>d. (if contentPath opts = ''readme.md''
                    then get_readme env (token opts) (owner opts) (repo opts) (contentPath opts) w'
                    else get_contents env (token opts) (owner opts) (repo opts) (contentPath opts) w')
                   = Inr d
                 \<and> data_content d = put_content req))"
    and b64: "\<forall>s. decodeBase64 env (encodeBase64 env s) = Inr s"
  shows "(chars (content opts) = chars c \<longrightarrow> upsert env opts w = ([], Inr w))
       \<and> (\<forall>ws w'. upsert env opts w = (ws, Inr w')
           \<longrightarrow> length ws = (if chars (content opts) = chars c then 0 else 1)
               \<and> upsert env opts w' = ([], Inr w'))"
proof (intro conjI allI impI)
  assume "chars (content opts) = chars c"
  with r show "upsert env opts w = ([], Inr w)" by (rule upsert_equal)
next
  fix ws w'
  assume u: "upsert env opts w = (ws, Inr w')"
  let ?opts = "opts\<lparr>content := (content opts)\<lparr>sha := sha c, path := path c\<rparr>\<rparr>"
  show "length ws = (if chars (content opts) = chars c then 0 else 1)"
  proof (cases "chars (content opts) = chars c")
    case True
    with r u show ?thesis by (simp add: upsert_equal)
  next
    case False
    from upsert_differs [OF r False] u
    have "ws = fst (upload env ?opts w)"
      by (metis fst_conv)
    with False show ?thesis by (simp add: fst_upload_length)
  qed
  show "upsert env opts w' = ([], Inr w')"
  proof (cases "chars (content opts) = chars c")
    case True
    with r u have "w' = w" by (simp add: upsert_equal)
    with r True show ?thesis by (simp add: upsert_equal)
  next
    case False
    from upsert_differs [OF r False] u
    have up: "upload env ?opts w = (ws, Inr w')" by simp
    show ?thesis
    proof (cases "dryrun opts")
      case True
      with up have "writeFile env (cwd opts) (contentPath opts) (chars (content opts)) w = Inr w'"
        by (simp add: upload_def)
      with files True
      have "readFile env (cwd opts) (contentPath opts) w' = Inr (chars (content opts))"
        by blast
      from read_dryrun [OF True this] show ?thesis
        by (simp add: upsert_def)
    next
      case False
      let ?req = "\<lparr>put_owner = owner opts,
                   put_repo = repo opts,
                   put_path = (case path c of
                                 None \<Rightarrow> contentPath opts
                               | Some p \<Rightarrow> if p \<noteq> [] then p else contentPath opts),
                   put_message = ''chore: '' @ contentPath opts @ '' ''
                     @ (if truthy (sha c) then ''updated'' else ''added''),
                   put_committer_name = committerName opts,
                   put_committer_email = committerEmail opts,
                   put_content = encodeBase64 env (chars (content opts)),
                   put_sha = sha c\<rparr>"
      from up False have p: "put_contents env (token opts) ?req w = Inr w'"
        by (simp add: upload_def Let_def cong: option.case_cong if_cong)
      with repo False obtain d where
        d: "(if contentPath opts = ''readme.md''
             then get_readme env (token opts) (owner opts) (repo opts) (contentPath opts) w'
             else get_contents env (token opts) (owner opts) (repo opts) (contentPath opts) w')
            = Inr d"
        and dc: "data_content d = put_content ?req"
        by (metis (no_types, lifting) put_request.select_convs(1,2,3))
      from dc b64 have "decodeBase64 env (data_content d) = Inr (chars (content opts))"
        by simp
      from read_remote [OF False d this] show ?thesis
        by (simp add: upsert_def)
    qed
  qed
qed

theorem upsert_idempotent_witness:
  "read (mem_env []) example_opts empty_store = Inr empty_content
   \<and> upsert (mem_env []) example_opts empty_store
       = ([WriteFile ''/work'' ''readme.md'' ''new''],
          Inr (empty_store\<lparr>files := [(''/work'', ''readme.md'') \<mapsto> ''new'']\<rparr>))
   \<and> upsert (mem_env []) example_opts (empty_store\<lparr>files := [(''/work'', ''readme.md'') \<mapsto> ''new'']\<rparr>)
       = ([], Inr (empty_store\<lparr>files := [(''/work'', ''readme.md'') \<mapsto> ''new'']\<rparr>))
   \<and> read (mem_env []) (example_opts\<lparr>dryrun := False\<rparr>) example_remote
       = Inr \<lparr>chars = ''old'', sha = Some ''abc'', path = Some ''README.md''\<rparr>
   \<and> (\<exists>req w'. upsert (mem_env []) (example_opts\<lparr>dryrun := False\<rparr>) example_remote
                  = ([PutContents ''t'' req], Inr w')
              \<and> put_sha req = Some ''abc''
              \<and> upsert (mem_env []) (example_opts\<lparr>dryrun := False\<rparr>) w' = ([], Inr w'))"
proof -
  let ?env = "mem_env [] :: (int, store) env"
  let ?w1 = "empty_store\<lparr>files := [(''/work'', ''readme.md'') \<mapsto> ''new'']\<rparr>"
  let ?ropts = "example_opts\<lparr>dryrun := False\<rparr>"
  have b: "\<forall>s. decodeBase64 ?env (encodeBase64 ?env s) = Inr s"
    by (simp add: mem_env_def)
  have r0: "read ?env example_opts empty_store = Inr empty_content"
    by (simp add: mem_simps)
  have f0: "dryrun example_opts \<longrightarrow>
       (\<forall>s w'. writeFile ?env (cwd example_opts) (contentPath example_opts) s empty_store = Inr w'
          \<longrightarrow> readFile ?env (cwd example_opts) (contentPath example_opts) w' = Inr s)"
    by (auto simp: mem_env_def)
  have g0: "\<not> dryrun example_opts \<longrightarrow>
       (\<forall>req w'. put_contents ?env (token example_opts) req empty_store = Inr w'
            \<and> put_owner req = owner example_opts \<and> put_repo req = repo example_opts
            \<and> put_path req = (case path empty_content of
                                None \<Rightarrow> contentPath example_opts
                              | Some p \<Rightarrow> if p \<noteq> [] then p else contentPath example_opts)
          \<longrightarrow> (\<exists>d. (if contentPath example_opts = ''readme.md''
                    then get_readme ?env (token example_opts) (owner example_opts)
                           (repo example_opts) (contentPath example_opts) w'
                    else get_contents ?env (token example_opts) (owner example_opts)
                           (repo example_opts) (contentPath example_opts) w')
                   = Inr d
                 \<and> data_content d = put_content req))"
    by (simp add: example_opts_def)
  have u0: "upsert ?env example_opts empty_store
       = ([WriteFile ''/work'' ''readme.md'' ''new''], Inr ?w1)"
    by (simp add: mem_simps)
  have d0: "upsert ?env example_opts ?w1 = ([], Inr ?w1)"
    using upsert_idempotent [OF r0 f0 g0 b] u0 by blast
  let ?c1 = "\<lparr>chars = ''old'', sha = Some ''abc'', path = Some ''README.md''\<rparr>"
  have r1: "read ?env ?ropts example_remote = Inr ?c1"
    by (simp add: mem_simps)
  have f1: "dryrun ?ropts \<longrightarrow>
       (\<forall>s w'. writeFile ?env (cwd ?ropts) (contentPath ?ropts) s example_remote = Inr w'
          \<longrightarrow> readFile ?env (cwd ?ropts) (contentPath ?ropts) w' = Inr s)"
    by simp
  have g1: "\<not> dryrun ?ropts \<longrightarrow>
       (\<forall>req w'. put_contents ?env (token ?ropts) req example_remote = Inr w'
            \<and> put_owner req = owner ?ropts \<and> put_repo req = repo ?ropts
            \<and> put_path req = (case path ?c1 of
                                None \<Rightarrow> contentPath ?ropts
                              | Some p \<Rightarrow> if p \<noteq> [] then p else contentPath ?ropts)
          \<longrightarrow> (\<exists>d. (if contentPath ?ropts = ''readme.md''
                    then get_readme ?env (token ?ropts) (owner ?ropts)
                           (repo ?ropts) (contentPath ?ropts) w'
                    else get_contents ?env (token ?ropts) (owner ?ropts)
                           (repo ?ropts) (contentPath ?ropts) w')
                   = Inr d
                 \<and> data_content d = put_content req))"
    by (auto simp: mem_env_def mem_put_def mem_get_def Let_def example_opts_def
        example_remote_def split: if_splits)
  obtain req w' where u1: "upsert ?env ?ropts example_remote = ([PutContents ''t'' req], Inr w')"
    and s1: "put_sha req = Some ''abc''"
    by (simp add: mem_simps Let_def)
  have d1: "upsert ?env ?ropts w' = ([], Inr w')"
    using upsert_idempotent [OF r1 f1 g1 b] u1 by blast
  from r0 u0 d0 r1 u1 s1 d1 show ?thesis by blast
qed

text \<open>
  The claim as stated, exactly one write over the two calls, fails where the store
  already holds the desired content: neither call writes. It also fails where the store
  rejects the write: the first call ends in that error, the store is as it was, and the
  second call is the first one again, with its write.
\<close>

theorem upsert_twice_counterexample:
  "read (mem_env []) example_opts (empty_store\<lparr>files := [(''/work'', ''readme.md'') \<mapsto> ''new'']\<rparr>)
     = Inr \<lparr>chars = chars (content example_opts), sha = None, path = None\<rparr>
   \<and> upsert (mem_env []) example_opts (empty_store\<lparr>files := [(''/work'', ''readme.md'') \<mapsto> ''new'']\<rparr>)
     = ([], Inr (empty_store\<lparr>files := [(''/work'', ''readme.md'') \<mapsto> ''new'']\<rparr>))
   \<and> length (fst (upsert (mem_env []) example_opts
                (empty_store\<lparr>files := [(''/work'', ''readme.md'') \<mapsto> ''new'']\<rparr>)))
     + length (fst (upsert (mem_env []) example_opts
                (empty_store\<lparr>files := [(''/work'', ''readme.md'') \<mapsto> ''new'']\<rparr>)))
     \<noteq> 1
   \<and> snd (upsert rejecting_env (example_opts\<lparr>dryrun := False\<rparr>) example_remote)
     = Inl (RequestError (Some 409))
   \<and> length (fst (upsert rejecting_env (example_opts\<lparr>dryrun := False\<rparr>) example_remote))
     + length (fst (upsert rejecting_env (example_opts\<lparr>dryrun := False\<rparr>) example_remote))
     = 2"
  by (simp add: mem_simps rejecting_env_def Let_def)

text \<open>
  Claim C5. When the content read differs from the desired content, \<open>upsert\<close> makes one
  write and returns its outcome. Outside dry-run mode it is the \<open>PUT\<close> request handed to
  the client, whose \<open>sha\<close> is the one the read of the same call returned, addressed to
  the path that read reported (or to \<open>contentPath\<close>). In dry-run mode it is the write of
  the file \<open>path.join(cwd, contentPath)\<close>, which carries no \<open>sha\<close>, and the read
  returned none.
\<close>

theorem upsert_write_carries_read_sha:
  assumes "read env opts w = Inr c" and "chars (content opts) \<noteq> chars c"
  shows "(dryrun opts \<longrightarrow>
            upsert env opts w
              = ([WriteFile (cwd opts) (contentPath opts) (chars (content opts))],
                 writeFile env (cwd opts) (contentPath opts) (chars (content opts)) w)
            \<and> sha c = None)
       \<and> (\<not> dryrun opts \<longrightarrow>
            (\<exists>req. upsert env opts w
                    = ([PutContents (token opts) req], put_contents env (token opts) req w)
                  \<and> put_sha req = sha c
                  \<and> put_owner req = owner opts
                  \<and> put_repo req = repo opts
                  \<and> put_path req = (case path c of
                                      None \<Rightarrow> contentPath opts
                                    | Some p \<Rightarrow> if p \<noteq> [] then p else contentPath opts)
                  \<and> put_content req = encodeBase64 env (chars (content opts))))"
proof (intro conjI impI)
  assume d: "dryrun opts"
  show "upsert env opts w
              = ([WriteFile (cwd opts) (contentPath opts) (chars (content opts))],
                 writeFile env (cwd opts) (contentPath opts) (chars (content opts)) w)"
    using upsert_differs [OF assms] d by (simp add: upload_def)
  show "sha c = None"
    using assms(1) d
    by (auto simp: read_def read_try_def empty_content_def split: sum.splits)
next
  assume d: "\<not> dryrun opts"
  show "\<exists>req. upsert env opts w
                    = ([PutContents (token opts) req], put_contents env (token opts) req w)
                  \<and> put_sha req = sha c
                  \<and> put_owner req = owner opts
                  \<and> put_repo req = repo opts
                  \<and> put_path req = (case path c of
                                      None \<Rightarrow> contentPath opts
                                    | Some p \<Rightarrow> if p \<noteq> [] then p else contentPath opts)
                  \<and> put_content req = encodeBase64 env (chars (content opts))"
    using upsert_differs [OF assms] d
    by (simp add: upload_def Let_def cong: option.case_cong if_cong)
qed

theorem upsert_write_carries_read_sha_witness:
  "read (mem_env []) (example_opts\<lparr>dryrun := False\<rparr>) example_remote
     = Inr \<lparr>chars = ''old'', sha = Some ''abc'', path = Some ''README.md''\<rparr>
   \<and> chars (content (example_opts\<lparr>dryrun := False\<rparr>)) \<noteq> ''old''
   \<and> (\<exists>req. upsert (mem_env []) (example_opts\<lparr>dryrun := False\<rparr>) example_remote
               = ([PutContents ''t'' req], put_contents (mem_env []) ''t'' req example_remote)
            \<and> put_sha req = Some ''abc''
            \<and> put_path req = ''README.md'')
   \<and> read (mem_env []) example_opts empty_store = Inr empty_content
   \<and> chars (content example_opts) \<noteq> chars empty_content
   \<and> upsert (mem_env []) example_opts empty_store
       = ([WriteFile ''/work'' ''readme.md'' ''new''],
          writeFile (mem_env []) ''/work'' ''readme.md'' ''new'' empty_store)"
proof -
  let ?env = "mem_env [] :: (int, store) env"
  have r: "read ?env (example_opts\<lparr>dryrun := False\<rparr>) example_remote
     = Inr \<lparr>chars = ''old'', sha = Some ''abc'', path = Some ''README.md''\<rparr>"
    by (simp add: mem_simps)
  have n: "chars (content (example_opts\<lparr>dryrun := False\<rparr>))
             \<noteq> chars \<lparr>chars = ''old'', sha = Some ''abc'', path = Some ''README.md''\<rparr>"
    by (simp add: example_opts_def)
  have r': "read ?env example_opts empty_store = Inr empty_content"
    by (simp add: mem_simps)
  have n': "chars (content example_opts) \<noteq> chars empty_content"
    by (simp add: example_opts_def empty_content_def)
  have t: "token (example_opts\<lparr>dryrun := False\<rparr>) = ''t''" "\<not> dryrun (example_opts\<lparr>dryrun := False\<rparr>)"
    "dryrun example_opts" "cwd example_opts = ''/work''" "contentPath example_opts = ''readme.md''"
    "chars (content example_opts) = ''new''"
    by (simp_all add: example_opts_def)
  show ?thesis
    using upsert_write_carries_read_sha [OF r n] upsert_write_carries_read_sha [OF r' n'] r n r' n' t
    by auto
qed

text \<open>
  Claim C7. \<open>read\<close> always returns: whatever error its \<open>try\<close> block ends in, a status
  404 or any other, the result is the empty string with neither \<open>sha\<close> nor \<open>path\<close>,
  and a successful read is returned as it is.
\<close>

theorem read_never_raises:
  "(\<exists>c. read env opts w = Inr c)
   \<and> (\<forall>e. read_try env opts w = Inl e \<longrightarrow> read env opts w = Inr empty_content)
   \<and> (\<forall>c. read_try env opts w = Inr c \<longrightarrow> read env opts w = Inr c)"
  by (simp add: read_def split: sum.splits)

theorem read_never_raises_witness:
  "read_try ((mem_env [])\<lparr>get_contents := \<lambda>tok ow rp p w. Inl (RequestError (Some 500))\<rparr>)
      (example_opts\<lparr>dryrun := False, contentPath := ''my-badges/my-badges.json''\<rparr>) example_remote
     = Inl (RequestError (Some 500))
   \<and> read ((mem_env [])\<lparr>get_contents := \<lambda>tok ow rp p w. Inl (RequestError (Some 500))\<rparr>)
      (example_opts\<lparr>dryrun := False, contentPath := ''my-badges/my-badges.json''\<rparr>) example_remote
     = Inr empty_content
   \<and> read_try (mem_env []) (example_opts\<lparr>dryrun := False\<rparr>) example_remote
     = Inr \<lparr>chars = ''old'', sha = Some ''abc'', path = Some ''README.md''\<rparr>
   \<and> read (mem_env []) (example_opts\<lparr>dryrun := False\<rparr>) example_remote
     = Inr \<lparr>chars = ''old'', sha = Some ''abc'', path = Some ''README.md''\<rparr>"
proof -
  let ?env = "(mem_env [])\<lparr>get_contents := \<lambda>tok ow rp p w. Inl (RequestError (Some 500))\<rparr>"
  let ?opts = "example_opts\<lparr>dryrun := False, contentPath := ''my-badges/my-badges.json''\<rparr>"
  have f: "read_try ?env ?opts example_remote = Inl (RequestError (Some 500))"
    by (simp add: read_try_def mem_env_def example_opts_def)
  have g: "read_try (mem_env []) (example_opts\<lparr>dryrun := False\<rparr>) example_remote
     = Inr \<lparr>chars = ''old'', sha = Some ''abc'', path = Some ''README.md''\<rparr>"
    by (simp add: mem_simps)
  show ?thesis
    using read_never_raises [of ?env ?opts example_remote]
      read_never_raises [of "mem_env []" "example_opts\<lparr>dryrun := False\<rparr>" example_remote] f g
    by simp
qed

section \<open>Properties of the README templater\<close>

text \<open>The result of \<open>generateReadme\<close> when both markers are found, and when one is not.\<close>

lemma generateReadme_both:
  assumes i: "index_of readme startString = Some i"
    and j: "index_of readme endString = Some j"
  shows "generateReadme quoteAttr sizeAttr readme badges =
           take i readme
           @ startString @ [newline] @ header
           @ join [newline] (map (badgeHtml quoteAttr sizeAttr) badges)
           @ [newline] @ endString
           @ (if char_at readme (int j + int (length endString) + 1) \<noteq> Some [newline]
              then [newline] else [])
           @ drop (j + length endString) readme"
proof -
  have li: "i \<le> length readme"
    using index_of_Some_bound [OF i] by simp
  let ?c = "take i readme @ drop (j + length endString) readme"
  have c1: "slice readme 0 (int i) @ slice_from readme (int j + int (length endString)) = ?c"
    using slice_0 [OF li] slice_from_nat [of readme "j + length endString"] by simp
  have "i \<le> length ?c" using li by simp
  then have c2: "slice ?c 0 (int i) = take i readme"
    using li by (simp add: slice_0)
  have c3: "slice_from ?c (int i) = drop (j + length endString) readme"
    using li by (simp add: slice_from_nat)
  show ?thesis
    unfolding generateReadme_def indexOf_def Let_def
    using c1 c2 c3 by (simp add: i j)
qed

lemma generateReadme_absent:
  "index_of readme startString = None \<or> index_of readme endString = None \<Longrightarrow>
   generateReadme quoteAttr sizeAttr readme badges = readme"
  by (auto simp: generateReadme_def indexOf_def Let_def split: option.splits)

text \<open>The two markers cannot overlap, so a document with the start marker first splits
  at them.\<close>

lemma start_marker_tail: "CHR ''<'' \<notin> set (tl startString)"
  by (simp add: startString_def)

lemma markers_differ: "take (length endString) startString \<noteq> endString"
  by (simp add: startString_def endString_def)

lemma markers_do_not_overlap:
  assumes i: "index_of readme startString = Some i"
    and j: "index_of readme endString = Some j"
    and le: "i \<le> j"
  shows "i + length startString \<le> j"
proof (rule ccontr)
  assume "\<not> i + length startString \<le> j"
  then have lt: "j - i < length startString" using le by simp
  from index_of_Some_bound [OF i]
  have s: "take (length startString) (drop i readme) = startString"
    and sl: "i + length startString \<le> length readme" by simp_all
  from index_of_Some_bound [OF j]
  have e: "take (length endString) (drop j readme) = endString"
    and el: "j + length endString \<le> length readme" by simp_all
  show False
  proof (cases "j = i")
    case True
    have "take (length endString) startString
            = take (length endString) (take (length startString) (drop i readme))"
      by (simp only: s)
    also have "\<dots> = take (length endString) (drop i readme)"
      by (simp add: startString_def endString_def min_def)
    also have "\<dots> = endString" using e True by simp
    finally show False using markers_differ by simp
  next
    case False
    with le have d: "0 < j - i" by simp
    have "readme ! j = endString ! 0"
    proof -
      have "endString ! 0 = take (length endString) (drop j readme) ! 0"
        by (simp only: e)
      also have "\<dots> = readme ! j"
        using el by (simp add: endString_def)
      finally show ?thesis by simp
    qed
    then have a: "readme ! j = CHR ''<''" by (simp add: endString_def)
    have "startString ! (j - i) = take (length startString) (drop i readme) ! (j - i)"
      by (simp only: s)
    also have "\<dots> = readme ! j"
      using lt le sl by simp
    finally have b: "startString ! (j - i) = CHR ''<''" using a by simp
    from d obtain k where k: "j - i = Suc k" by (cases "j - i") simp_all
    with lt have kl: "k < length (tl startString)" by simp
    have "tl startString ! k = startString ! (j - i)"
      using kl by (simp add: nth_tl k)
    moreover have "tl startString ! k \<in> set (tl startString)"
      using kl by (rule nth_mem)
    ultimately show False using b start_marker_tail by simp
  qed
qed

lemma split_at_markers:
  assumes i: "index_of readme startString = Some i"
    and j: "index_of readme endString = Some j"
    and le: "i \<le> j"
  shows "readme = take i readme @ startString
           @ take (j - (i + length startString)) (drop (i + length startString) readme)
           @ endString @ drop (j + length endString) readme"
proof -
  from markers_do_not_overlap [OF assms] have ov: "i + length startString \<le> j" .
  from index_of_Some_bound [OF i]
  have s: "take (length startString) (drop i readme) = startString" by simp
  from index_of_Some_bound [OF j]
  have e: "take (length endString) (drop j readme) = endString" by simp
  have 1: "readme = take i readme @ drop i readme" by simp
  have 2: "drop i readme = startString @ drop (i + length startString) readme"
    using append_take_drop_id [of "length startString" "drop i readme"] s
    by (simp add: add.commute)
  have 3: "drop (i + length startString) readme
             = take (j - (i + length startString)) (drop (i + length startString) readme)
               @ drop j readme"
    using append_take_drop_id [of "j - (i + length startString)" "drop (i + length startString) readme"] ov
    by simp
  have 4: "drop j readme = endString @ drop (j + length endString) readme"
    using append_take_drop_id [of "length endString" "drop j readme"] e
    by (simp add: add.commute)
  show ?thesis using 1 2 3 4 by metis
qed

text \<open>
  Claim C2, as amended. When both markers occur in the document and the first start
  marker begins no later than the first end marker, the document is some text, the
  start marker, some text, the end marker and some text, and the result is the first of
  these texts, then the new block (start marker, header, thumbnails, end marker, and at
  most one newline), then the last of them: only the span from the start marker to the
  end of the end marker is replaced.
\<close>

theorem generateReadme_preserves_outside:
  assumes "sublist startString readme" and "sublist endString readme"
    and "indexOf readme startString \<le> indexOf readme endString"
  shows "\<exists>pre mid post nl.
           readme = pre @ startString @ mid @ endString @ post
           \<and> indexOf readme startString = int (length pre)
           \<and> indexOf readme endString = int (length (pre @ startString @ mid))
           \<and> (\<forall>k<length pre. take (length startString) (drop k readme) \<noteq> startString)
           \<and> (\<forall>k<length (pre @ startString @ mid).
                 take (length endString) (drop k readme) \<noteq> endString)
           \<and> (nl = [] \<or> nl = [newline])
           \<and> generateReadme quoteAttr sizeAttr readme badges =
               pre
               @ (startString @ [newline] @ header
                  @ join [newline] (map (badgeHtml quoteAttr sizeAttr) badges)
                  @ [newline] @ endString @ nl)
               @ post"
proof -
  from assms(1,2) obtain i j where i: "index_of readme startString = Some i"
    and j: "index_of readme endString = Some j"
    using index_of_None_iff by (metis not_Some_eq)
  from assms(3) have le: "i \<le> j" by (simp add: indexOf_def i j)
  from markers_do_not_overlap [OF i j le] have ov: "i + length startString \<le> j" .
  from index_of_Some_bound [OF i] have li: "i \<le> length readme" by simp
  let ?pre = "take i readme"
  let ?mid = "take (j - (i + length startString)) (drop (i + length startString) readme)"
  let ?post = "drop (j + length endString) readme"
  let ?nl = "if char_at readme (int j + int (length endString) + 1) \<noteq> Some [newline]
             then [newline] else []"
  have d: "readme = ?pre @ startString @ ?mid @ endString @ ?post"
    by (rule split_at_markers [OF i j le])
  have lp: "length ?pre = i" using li by simp
  from index_of_Some_bound [OF j] have lj: "j \<le> length readme" by simp
  have lmid: "length ?mid = j - (i + length startString)"
    using lj by (auto simp: min_def)
  have lm: "length (?pre @ startString @ ?mid) = j"
    unfolding length_append lp lmid using ov by simp
  have s: "indexOf readme startString = int (length ?pre)"
    by (simp only: lp) (simp add: indexOf_def i)
  have e: "indexOf readme endString = int (length (?pre @ startString @ ?mid))"
    by (simp only: lm) (simp add: indexOf_def j)
  have fs: "\<forall>k<length ?pre. take (length startString) (drop k readme) \<noteq> startString"
    unfolding lp using index_of_least [OF i] by blast
  have fe: "\<forall>k<length (?pre @ startString @ ?mid).
              take (length endString) (drop k readme) \<noteq> endString"
    unfolding lm using index_of_least [OF j] by blast
  have n: "?nl = [] \<or> ?nl = [newline]" by simp
  have g: "generateReadme quoteAttr sizeAttr readme badges =
               ?pre
               @ (startString @ [newline] @ header
                  @ join [newline] (map (badgeHtml quoteAttr sizeAttr) badges)
                  @ [newline] @ endString @ ?nl)
               @ ?post"
    using generateReadme_both [OF i j] by simp
  from d s e fs fe n g show ?thesis by blast
qed

theorem generateReadme_preserves_outside_witness:
  "sublist startString (''# Hi '' @ startString @ ''old'' @ endString @ '' bye'')
   \<and> sublist endString (''# Hi '' @ startString @ ''old'' @ endString @ '' bye'')
   \<and> indexOf (''# Hi '' @ startString @ ''old'' @ endString @ '' bye'') startString
       \<le> indexOf (''# Hi '' @ startString @ ''old'' @ endString @ '' bye'') endString
   \<and> (\<exists>pre mid post nl.
         ''# Hi '' @ startString @ ''old'' @ endString @ '' bye''
           = pre @ startString @ mid @ endString @ post
         \<and> indexOf (''# Hi '' @ startString @ ''old'' @ endString @ '' bye'') startString
             = int (length pre)
         \<and> indexOf (''# Hi '' @ startString @ ''old'' @ endString @ '' bye'') endString
             = int (length (pre @ startString @ mid))
         \<and> (\<forall>k<length pre.
               take (length startString)
                 (drop k (''# Hi '' @ startString @ ''old'' @ endString @ '' bye''))
               \<noteq> startString)
         \<and> (\<forall>k<length (pre @ startString @ mid).
               take (length endString)
                 (drop k (''# Hi '' @ startString @ ''old'' @ endString @ '' bye''))
               \<noteq> endString)
         \<and> (nl = [] \<or> nl = [newline])
         \<and> generateReadme (\<lambda>s. s) ''64''
              (''# Hi '' @ startString @ ''old'' @ endString @ '' bye'') [] =
               pre
               @ (startString @ [newline] @ header
                  @ join [newline] (map (badgeHtml (\<lambda>s. s) ''64'') [])
                  @ [newline] @ endString @ nl)
               @ post)"
proof -
  let ?doc = "''# Hi '' @ startString @ ''old'' @ endString @ '' bye''"
  have i: "index_of ?doc startString = Some 5"
    by (simp add: startString_def endString_def)
  have j: "index_of ?doc endString = Some 32"
    by (simp add: startString_def endString_def)
  have s: "sublist startString ?doc"
    using index_of_None_iff [of ?doc startString] i by simp
  have e: "sublist endString ?doc"
    using index_of_None_iff [of ?doc endString] j by simp
  have le: "indexOf ?doc startString \<le> indexOf ?doc endString"
    unfolding indexOf_def i j by simp
  show ?thesis
    using s e le generateReadme_preserves_outside [OF s e le, of "\<lambda>s. s" "''64''" "[]"]
    by blast
qed

text \<open>
  The claim as stated covers a document whose first end marker comes before its first
  start marker. There nothing is removed: the result keeps both old markers, inserts
  the new block before the old start marker and repeats the text between the markers.
\<close>

theorem generateReadme_end_marker_first_counterexample:
  "sublist startString (endString @ ''B'' @ startString)
   \<and> sublist endString (endString @ ''B'' @ startString)
   \<and> generateReadme (\<lambda>s. s) ''64'' (endString @ ''B'' @ startString) []
     = endString @ ''B''
       @ (startString @ [newline] @ header @ [newline] @ endString @ [newline])
       @ ''B'' @ startString"
proof -
  let ?doc = "endString @ ''B'' @ startString"
  have i: "index_of ?doc startString = Some 23"
    by (simp add: startString_def endString_def)
  have j: "index_of ?doc endString = Some 0"
    by (simp add: startString_def endString_def)
  have s: "sublist startString ?doc"
    using index_of_None_iff [of ?doc startString] i by simp
  have e: "sublist endString ?doc"
    using index_of_None_iff [of ?doc endString] j by simp
  have n: "char_at ?doc (0 + int (length endString) + 1) = Some ''<''"
    by (simp add: char_at_def startString_def endString_def)
  have t: "take 23 ?doc = endString @ ''B''"
    by (simp add: endString_def)
  have d: "drop (0 + length endString) ?doc = ''B'' @ startString"
    by (simp add: endString_def)
  have g: "generateReadme (\<lambda>s. s) ''64'' ?doc []
     = endString @ ''B''
       @ (startString @ [newline] @ header @ [newline] @ endString @ [newline])
       @ ''B'' @ startString"
    using generateReadme_both [OF i j, of "\<lambda>s. s" "''64''" "[]"] n t d
    by (simp add: newline_def)
  from s e g show ?thesis by simp
qed

text \<open>
  Claim C3. When the start marker or the end marker does not occur in the document,
  \<open>generateReadme\<close> returns the document unchanged, for every badge list and size.
\<close>

theorem generateReadme_identity_without_markers:
  assumes "\<not> sublist startString readme \<or> \<not> sublist endString readme"
  shows "generateReadme quoteAttr sizeAttr readme badges = readme"
  using assms generateReadme_absent index_of_None_iff by blast

theorem generateReadme_identity_without_markers_witness:
  "\<not> sublist endString (startString @ ''no end marker'')
   \<and> generateReadme (\<lambda>s. s) ''64'' (startString @ ''no end marker'')
        [\<lparr>badge_id = ''stars-100'', tier = 1, image = ''i.png'', desc = ''d'', body = ''b''\<rparr>]
      = startString @ ''no end marker''"
proof -
  have "index_of (startString @ ''no end marker'') endString = None"
    by (simp add: startString_def endString_def)
  then have h: "\<not> sublist endString (startString @ ''no end marker'')"
    by (simp add: index_of_None_iff)
  show ?thesis
    using h generateReadme_identity_without_markers [OF disjI2, OF h] by simp
qed

text \<open>
  Claim C4 asks for a newline after the new end marker exactly when the character right
  after the old end marker is not a newline. The code tests the character one position
  further (\<open>end + endString.length + 1\<close>): in a document that ends with the end marker
  and one newline, the character after the marker is a newline, and the result still
  gets a second one.
\<close>

theorem generateReadme_newline_looks_one_too_far:
  "char_at (startString @ endString @ [newline])
     (indexOf (startString @ endString @ [newline]) endString + int (length endString))
     = Some [newline]
   \<and> generateReadme (\<lambda>s. s) ''64'' (startString @ endString @ [newline]) []
     = startString @ [newline] @ header @ [newline] @ endString @ [newline] @ [newline]"
proof -
  have i: "index_of (startString @ endString @ [newline]) startString = Some 0"
    by (simp add: startString_def endString_def)
  have j: "index_of (startString @ endString @ [newline]) endString = Some 24"
    by (simp add: startString_def endString_def)
  have c: "char_at (startString @ endString @ [newline]) (24 + int (length endString))
             = Some [newline]"
    by (simp add: char_at_def startString_def endString_def)
  have n: "char_at (startString @ endString @ [newline]) (24 + int (length endString) + 1)
             = None"
    by (simp add: char_at_def startString_def endString_def)
  have d: "drop (24 + length endString) (startString @ endString @ [newline]) = [newline]"
    by (simp add: startString_def endString_def)
  show ?thesis
    using generateReadme_both [OF i j, of "\<lambda>s. s" "''64''" "[]"] c n d
    by (simp add: indexOf_def j)
qed

section \<open>Properties of \<open>getBadges\<close>\<close>

lemmas gb_simps = getBadges_def getBadges_try_def getBadges_readOpts_def read_def read_try_def
  mem_env_def mem_get_def failing_env_def example_gb_opts_def manifest_store_def empty_store_def
  empty_content_def example_table_def addMissingTier_def

text \<open>
  The \<open>try\<close> block of \<open>getBadges\<close> ends in no \<open>RequestError\<close>, since \<open>read\<close> has
  caught every error of the fetch: \<open>getBadges\<close> always returns.
\<close>

lemma getBadges_try_errors:
  "getBadges_try env opts w = Inl e \<Longrightarrow> e = SyntaxError \<or> e = TypeError"
proof -
  have sp: "set_prop v k x = Inl e' \<Longrightarrow> e' = TypeError" for v :: "'a jsval" and k x e'
    by (cases v) auto
  have mt: "addMissingTier b = Inl e' \<Longrightarrow> e' = TypeError" for b :: "'a jsval" and e'
    by (cases b) (auto simp: addMissingTier_def split: if_splits)
  have mts: "addMissingTiers bs = Inl e' \<Longrightarrow> e' = TypeError" for bs :: "'a jsval list" and e'
    by (induction bs) (auto split: sum.splits dest: mt)
  assume "getBadges_try env opts w = Inl e"
  then show ?thesis
    by (auto simp: getBadges_try_def read_def
        split: sum.splits option.splits jsval.splits dest: sp mts)
qed

lemma getBadges_returns: "\<exists>v. getBadges env opts w = Inr v"
proof (cases "getBadges_try env opts w")
  case (Inl e)
  with getBadges_try_errors [OF Inl] show ?thesis
    by (auto simp: getBadges_def)
next
  case (Inr v)
  then show ?thesis by (simp add: getBadges_def)
qed

text \<open>
  Claim C6 asks that a fetch failure other than "not found" propagates from the load of
  the published badges. \<open>getBadges\<close> rethrows a \<open>RequestError\<close> whose status is not 404,
  but no such error reaches its \<open>catch\<close>: \<open>read\<close> has turned it into the empty string,
  which \<open>JSON.parse\<close> rejects. With a store that answers 500 the result is \<open>[]\<close>.
\<close>

theorem getBadges_swallows_server_error:
  "read_try (failing_env (Some 500)) (getBadges_readOpts (failing_env (Some 500)) example_gb_opts)
      empty_store = Inl (RequestError (Some 500))
   \<and> getBadges (failing_env (Some 500)) example_gb_opts empty_store = Inr (JArr [] [])"
  by (simp add: gb_simps)

text \<open>Assignment and lookup of properties, and the loop over the badges.\<close>

lemma lookup_assign: "lookup (assign ps k v) k' = (if k' = k then v else lookup ps k')"
  by (induction ps) auto

lemma addMissingTier_JObj:
  "addMissingTier (JObj ps) =
     Inr (if lookup ps ''tier'' = JUndefined then JObj (assign ps ''tier'' (JNum 0)) else JObj ps)"
  by (simp add: addMissingTier_def)

lemma addMissingTier_idem: "addMissingTier b = Inr b' \<Longrightarrow> addMissingTier b' = Inr b'"
  by (cases b) (auto simp: addMissingTier_def lookup_assign split: if_splits)

lemma addMissingTiers_pointwise:
  "addMissingTiers xs = Inr bs \<Longrightarrow> list_all2 (\<lambda>x b. addMissingTier x = Inr b) xs bs"
  by (induction xs arbitrary: bs) (auto split: sum.splits)

lemma pointwise_addMissingTiers:
  "list_all2 (\<lambda>x b. addMissingTier x = Inr b) xs bs \<Longrightarrow> addMissingTiers xs = Inr bs"
  by (induction rule: list_all2_induct) simp_all

lemma addMissingTiers_idem:
  assumes "addMissingTiers xs = Inr bs"
  shows "addMissingTiers bs = Inr bs"
proof -
  from assms have "list_all2 (\<lambda>x b. addMissingTier x = Inr b) xs bs"
    by (rule addMissingTiers_pointwise)
  then have "list_all2 (\<lambda>x b. addMissingTier x = Inr b) bs bs"
    by (induction rule: list_all2_induct) (auto dest: addMissingTier_idem)
  then show ?thesis by (rule pointwise_addMissingTiers)
qed

lemma addMissingTiers_objects:
  "\<forall>x\<in>set xs. \<exists>ps. x = JObj ps \<Longrightarrow> \<exists>bs. addMissingTiers xs = Inr bs"
proof (induction xs)
  case Nil
  show ?case by simp
next
  case (Cons x xs)
  then obtain ps bs where "x = JObj ps" "addMissingTiers xs = Inr bs" by auto
  then show ?case by (simp add: addMissingTier_JObj)
qed

text \<open>
  Claim C8. When the manifest read parses to an array of objects, \<open>getBadges\<close> returns
  an array of the same length in which an entry that had no \<open>tier\<close> has \<open>tier\<close> 0 and
  its other properties unchanged, and an entry that had one is unchanged; running the
  loop again on the result changes nothing.
\<close>

theorem getBadges_defaults_missing_tier:
  assumes r: "read env (getBadges_readOpts env opts) w = Inr c"
    and p: "JSON_parse env (chars c) = Some (JArr xs qs)"
    and o: "\<forall>x\<in>set xs. \<exists>ps. x = JObj ps"
  shows "\<exists>bs ps. getBadges env opts w = Inr (JArr bs ps) \<and> length bs = length xs
           \<and> (\<forall>i<length xs.
                 (get_prop (xs ! i) ''tier'' = Inr JUndefined
                    \<longrightarrow> get_prop (bs ! i) ''tier'' = Inr (JNum 0))
               \<and> (get_prop (xs ! i) ''tier'' \<noteq> Inr JUndefined \<longrightarrow> bs ! i = xs ! i)
               \<and> (\<forall>k. k \<noteq> ''tier'' \<longrightarrow> get_prop (bs ! i) k = get_prop (xs ! i) k))
           \<and> addMissingTiers bs = Inr bs"
proof -
  from addMissingTiers_objects [OF o] obtain bs where bs: "addMissingTiers xs = Inr bs" ..
  let ?ps = "assign qs ''sha'' (case sha c of None \<Rightarrow> JUndefined | Some s \<Rightarrow> JStr s)"
  have g: "getBadges env opts w = Inr (JArr bs ?ps)"
    by (simp add: getBadges_def getBadges_try_def r p bs)
  from bs have la: "list_all2 (\<lambda>x b. addMissingTier x = Inr b) xs bs"
    by (rule addMissingTiers_pointwise)
  then have len: "length bs = length xs"
    by (simp add: list_all2_lengthD)
  have pt: "(get_prop (xs ! i) ''tier'' = Inr JUndefined
                    \<longrightarrow> get_prop (bs ! i) ''tier'' = Inr (JNum 0))
               \<and> (get_prop (xs ! i) ''tier'' \<noteq> Inr JUndefined \<longrightarrow> bs ! i = xs ! i)
               \<and> (\<forall>k. k \<noteq> ''tier'' \<longrightarrow> get_prop (bs ! i) k = get_prop (xs ! i) k)"
    if i: "i < length xs" for i
  proof -
    have a: "addMissingTier (xs ! i) = Inr (bs ! i)"
      using list_all2_nthD [OF la i] by simp
    from o i obtain ps where ps: "xs ! i = JObj ps"
      using nth_mem by blast
    from a have b: "bs ! i = (if lookup ps ''tier'' = JUndefined
                             then JObj (assign ps ''tier'' (JNum 0)) else JObj ps)"
      unfolding ps addMissingTier_JObj by simp
    show ?thesis
      by (simp add: b ps lookup_assign)
  qed
  from g len pt addMissingTiers_idem [OF bs] show ?thesis by blast
qed

theorem getBadges_defaults_missing_tier_witness:
  \<open>read (mem_env example_table) (getBadges_readOpts (mem_env example_table) example_gb_opts)
      (manifest_store ''[{"id":"a"},{"id":"b","tier":2}]'')
     = Inr \<lparr>chars = ''[{"id":"a"},{"id":"b","tier":2}]'', sha = Some ''abc'',
            path = Some ''my-badges/my-badges.json''\<rparr>
   \<and> JSON_parse (mem_env example_table) ''[{"id":"a"},{"id":"b","tier":2}]''
     = Some (JArr [JObj [(''id'', JStr ''a'')],
                   JObj [(''id'', JStr ''b''), (''tier'', JNum 2)]] [])
   \<and> getBadges (mem_env example_table) example_gb_opts
        (manifest_store ''[{"id":"a"},{"id":"b","tier":2}]'')
     = Inr (JArr [JObj [(''id'', JStr ''a''), (''tier'', JNum 0)],
                  JObj [(''id'', JStr ''b''), (''tier'', JNum 2)]]
                 [(''sha'', JStr ''abc'')])
   \<and> (\<exists>bs ps. getBadges (mem_env example_table) example_gb_opts
        (manifest_store ''[{"id":"a"},{"id":"b","tier":2}]'') = Inr (JArr bs ps)
        \<and> get_prop (bs ! 0) ''tier'' = Inr (JNum 0)
        \<and> addMissingTiers bs = Inr bs)\<close>
proof -
  let ?env = "mem_env example_table"
  let ?txt = \<open>''[{"id":"a"},{"id":"b","tier":2}]''\<close>
  let ?xs = "[JObj [(''id'', JStr ''a'')], JObj [(''id'', JStr ''b''), (''tier'', JNum (2::int))]]"
  have r: "read ?env (getBadges_readOpts ?env example_gb_opts) (manifest_store ?txt)
     = Inr \<lparr>chars = ?txt, sha = Some ''abc'', path = Some ''my-badges/my-badges.json''\<rparr>"
    by (simp add: gb_simps)
  have p: "JSON_parse ?env (chars \<lparr>chars = ?txt, sha = Some ''abc'',
              path = Some ''my-badges/my-badges.json''\<rparr>) = Some (JArr ?xs [])"
    by (simp add: mem_env_def example_table_def)
  have o: "\<forall>x\<in>set ?xs. \<exists>ps. x = JObj ps"
    by simp
  have g: "getBadges ?env example_gb_opts (manifest_store ?txt)
     = Inr (JArr [JObj [(''id'', JStr ''a''), (''tier'', JNum 0)],
                  JObj [(''id'', JStr ''b''), (''tier'', JNum 2)]]
                 [(''sha'', JStr ''abc'')])"
    by (simp add: gb_simps)
  have u: "get_prop (?xs ! 0) ''tier'' = Inr JUndefined" by simp
  from getBadges_defaults_missing_tier [OF r p o] obtain bs ps where
    b: "getBadges ?env example_gb_opts (manifest_store ?txt) = Inr (JArr bs ps)"
       "get_prop (?xs ! 0) ''tier'' = Inr JUndefined \<longrightarrow> get_prop (bs ! 0) ''tier'' = Inr (JNum 0)"
       "addMissingTiers bs = Inr bs"
    by force
  with u have "\<exists>bs ps. getBadges ?env example_gb_opts (manifest_store ?txt) = Inr (JArr bs ps)
        \<and> get_prop (bs ! 0) ''tier'' = Inr (JNum 0)
        \<and> addMissingTiers bs = Inr bs"
    by blast
  with r p g show ?thesis by simp
qed



section \<open>Properties of the options and the snapshot loader\<close>

lemma split_without_separator: "sep \<notin> set s \<Longrightarrow> split sep s = [s]"
  by (induction s) auto

lemma getSnapshot_without_repo:
  "n_repo opts = None \<Longrightarrow>
   getSnapshot env opts w =
     (case getData env opts w of
        Inl e \<Rightarrow> Inl e
      | Inr (d, w') \<Rightarrow> Inr (\<lparr>snapshot_data = d, userBadges = JArr [] []\<rparr>, w'))"
  by (auto simp: getSnapshot_def split: sum.splits option.splits prod.splits)

text \<open>
  Claim C10. When the repository option (\<open>argv.repo\<close>, or \<open>GITHUB_REPO\<close> in its absence)
  is a non-empty string without a slash, the options \<open>normalizeOpts\<close> returns have that
  string as owner and no repository, and \<open>getSnapshot\<close> on them makes no call of
  \<open>provider.getBadges\<close>: it returns the data of \<open>getData\<close> with an empty badge list.
  \<open>normalizeOpts\<close> does return when \<open>argv.user\<close> or \<open>argv._\<close> is present.
\<close>

theorem normalizeOpts_repo_without_slash:
  assumes repo: "argv_repo argv = Some r \<or> (argv_repo argv = None \<and> GITHUB_REPO penv = Some r)"
    and ne: "r \<noteq> []"
    and ns: "CHR ''/'' \<notin> set r"
  shows "(\<forall>opts. normalizeOpts env githubProvider argv penv = Inr opts
            \<longrightarrow> n_owner opts = Some r \<and> n_repo opts = None
               \<and> getSnapshot env opts w =
                   (case getData env opts w of
                      Inl e \<Rightarrow> Inl e
                    | Inr (d, w') \<Rightarrow> Inr (\<lparr>snapshot_data = d, userBadges = JArr [] []\<rparr>, w')))
       \<and> (argv_user argv \<noteq> None \<or> argv_positional argv \<noteq> None
            \<longrightarrow> (\<exists>opts. normalizeOpts env githubProvider argv penv = Inr opts))"
proof (intro conjI allI impI)
  fix opts
  assume n: "normalizeOpts env githubProvider argv penv = Inr opts"
  from repo have rp: "(case argv_repo argv of None \<Rightarrow> GITHUB_REPO penv | Some r \<Rightarrow> Some r) = Some r"
    by auto
  from n show ow: "n_owner opts = Some r"
    by (auto simp: normalizeOpts_def Let_def rp split_without_separator [OF ns] element_def
        split: sum.splits)
  from n show rn: "n_repo opts = None"
    by (auto simp: normalizeOpts_def Let_def rp split_without_separator [OF ns] element_def
        split: sum.splits)
  then show "getSnapshot env opts w =
                   (case getData env opts w of
                      Inl e \<Rightarrow> Inl e
                    | Inr (d, w') \<Rightarrow> Inr (\<lparr>snapshot_data = d, userBadges = JArr [] []\<rparr>, w'))"
    by (rule getSnapshot_without_repo)
next
  assume "argv_user argv \<noteq> None \<or> argv_positional argv \<noteq> None"
  then show "\<exists>opts. normalizeOpts env githubProvider argv penv = Inr opts"
    by (auto simp: normalizeOpts_def Let_def split: option.splits)
qed

lemma example_normalized:
  "normalizeOpts (mem_env []) example_provider example_argv example_penv =
     Inr \<lparr>n_token = Some ''t'', n_owner = Some ''octocat'', n_repo = None, n_user = Some ''u'',
          n_size = SizeNumber 64, n_dryrun = False, n_compact = False, n_shuffle = False,
          pickBadges = [], omitBadges = [], dataPath = [], n_provider = example_provider,
          n_cwd = ''/work''\<rparr>"
  by (simp add: normalizeOpts_def example_argv_def example_penv_def Let_def element_def
      default_to_def mem_env_def)

theorem normalizeOpts_repo_without_slash_witness:
  "argv_repo example_argv = Some ''octocat''
   \<and> ''octocat'' \<noteq> []
   \<and> CHR ''/'' \<notin> set ''octocat''
   \<and> argv_user example_argv \<noteq> None
   \<and> (\<exists>opts. normalizeOpts (mem_env []) example_provider example_argv example_penv = Inr opts
         \<and> n_owner opts = Some ''octocat'' \<and> n_repo opts = None
         \<and> getSnapshot (mem_env []) opts empty_store
             = Inr (\<lparr>snapshot_data = JObj [], userBadges = JArr [] []\<rparr>,
                    empty_store\<lparr>files := [(''/work'', ''data/u.json'') \<mapsto> ''{}'']\<rparr>))"
proof -
  let ?o = "\<lparr>n_token = Some ''t'', n_owner = Some ''octocat'', n_repo = None, n_user = Some ''u'',
          n_size = SizeNumber (64::int), n_dryrun = False, n_compact = False, n_shuffle = False,
          pickBadges = [], omitBadges = [], dataPath = [], n_provider = example_provider,
          n_cwd = ''/work''\<rparr>"
  have a: "argv_repo example_argv = Some ''octocat''" "argv_user example_argv \<noteq> None"
    by (simp_all add: example_argv_def)
  have b: "''octocat'' \<noteq> []" "CHR ''/'' \<notin> set ''octocat''"
    by simp_all
  note t = normalizeOpts_repo_without_slash [OF disjI1, OF a(1) b,
      of "mem_env []" example_provider example_penv empty_store]
  from t a(2) obtain opts where
    n: "normalizeOpts (mem_env []) example_provider example_argv example_penv = Inr opts"
    by blast
  with t have c: "n_owner opts = Some ''octocat''" "n_repo opts = None"
    "getSnapshot (mem_env []) opts empty_store =
       (case getData (mem_env []) opts empty_store of
          Inl e \<Rightarrow> Inl e
        | Inr (d, w') \<Rightarrow> Inr (\<lparr>snapshot_data = d, userBadges = JArr [] []\<rparr>, w'))"
    by blast+
  from n have o: "opts = ?o"
    by (simp add: example_normalized)
  have d: "getData (mem_env []) ?o empty_store
     = Inr (JObj [], empty_store\<lparr>files := [(''/work'', ''data/u.json'') \<mapsto> ''{}'']\<rparr>)"
    by (simp add: getData_def example_provider_def mem_env_def empty_store_def)
  from c(3) d o have "getSnapshot (mem_env []) opts empty_store
             = Inr (\<lparr>snapshot_data = JObj [], userBadges = JArr [] []\<rparr>,
                    empty_store\<lparr>files := [(''/work'', ''data/u.json'') \<mapsto> ''{}'']\<rparr>)"
    by simp
  with n c a b show ?thesis by blast
qed

end
